theory Spec2Isabelle
  imports Main
begin

unbundle bit_operations_syntax

section \<open>Strings and formatting used by the collector\<close>

text \<open>
  Go strings are byte sequences; they are modelled as \<open>string\<close> (a list of
  \<open>char\<close>). The functions of the packages \<open>strings\<close> and \<open>fmt\<close> that
  \<open>file.go\<close> calls are written out here.
\<close>

text \<open>\<open>strings.Join(elems, sep)\<close>.\<close>

fun strings_Join :: "string list \<Rightarrow> string \<Rightarrow> string" where
  "strings_Join [] sep = []"
| "strings_Join [x] sep = x"
| "strings_Join (x # y # ys) sep = x @ sep @ strings_Join (y # ys) sep"

text \<open>\<open>strings.HasPrefix(s, prefix)\<close>.\<close>

definition strings_HasPrefix :: "string \<Rightarrow> string \<Rightarrow> bool" where
  "strings_HasPrefix s p = (take (length p) s = p)"

text \<open>
  \<open>strings.Index(s, substr)\<close>: the index of the first occurrence of
  \<open>substr\<close> in \<open>s\<close>, or \<open>-1\<close>.
\<close>

fun strings_Index :: "string \<Rightarrow> string \<Rightarrow> int" where
  "strings_Index [] sub = (if sub = [] then 0 else - 1)"
| "strings_Index (c # cs) sub =
     (if strings_HasPrefix (c # cs) sub then 0
      else (let r = strings_Index cs sub in if r = - 1 then - 1 else r + 1))"

text \<open>
  \<open>strings.ToLower\<close> on ASCII text: the letters \<open>A\<close> to \<open>Z\<close> are
  mapped to \<open>a\<close> to \<open>z\<close>, every other byte is kept. (Identifiers with letters
  outside ASCII are outside this model.)
\<close>

definition lowerTable :: "(char \<times> char) list" where
  "lowerTable = zip ''ABCDEFGHIJKLMNOPQRSTUVWXYZ'' ''abcdefghijklmnopqrstuvwxyz''"

definition toLowerChar :: "char \<Rightarrow> char" where
  "toLowerChar c = (case map_of lowerTable c of Some l \<Rightarrow> l | None \<Rightarrow> c)"

definition strings_ToLower :: "string \<Rightarrow> string" where
  "strings_ToLower s = map toLowerChar s"

text \<open>The verb \<open>%d\<close> of \<open>fmt.Sprintf\<close> on an unsigned integer: decimal digits.\<close>

definition digitChar :: "nat \<Rightarrow> char" where
  "digitChar d = ''0123456789'' ! d"

function formatUint :: "nat \<Rightarrow> string" where
  "formatUint n = (if n < 10 then [digitChar n] else formatUint (n div 10) @ [digitChar (n mod 10)])"
  by pat_completeness auto
termination
  by (relation "measure id") auto

declare formatUint.simps [simp del]

section \<open>The syntax tree consumed by the collector\<close>

text \<open>
  The fragment of \<open>go/ast\<close> that \<open>file.go\<close> inspects. An identifier node is
  identified by its position, as the type checker's tables are keyed by the node and not
  by the spelling. \<open>FuncType\<close> carries its parameter fields and its result fields; the
  result list is \<open>None\<close> when the \<open>Results\<close> pointer is nil (a signature with no
  results). \<open>ChanType\<close> carries the \<open>ast.ChanDir\<close> value. \<open>OtherExpr\<close>
  stands for every node shape that no type switch of \<open>file.go\<close> names, with its
  child expressions.
\<close>

datatype ident = MkIdent (NamePos: nat) (Name: string)

datatype expr =
    Ident ident
  | SelectorExpr expr ident
  | StarExpr expr
  | ArrayType "expr option" expr
  | MapType expr expr
  | FuncType "field list" "field list option"
  | ChanType int expr
  | StructType "field list"
  | InterfaceType "field list"
  | OtherExpr "expr list"
and field = Field (Names: "ident list") (Type: expr)

text \<open>The direction constants of \<open>go/ast\<close> and of \<open>go/types\<close>.\<close>

definition ast_SEND :: int where "ast_SEND = 1"
definition ast_RECV :: int where "ast_RECV = 2"

definition types_SendRecv :: int where "types_SendRecv = 0"
definition types_SendOnly :: int where "types_SendOnly = 1"
definition types_RecvOnly :: int where "types_RecvOnly = 2"

text \<open>The run-time panics that the collector can raise.\<close>

datatype panic = NilDereference | IndexOutOfRange

section \<open>Rendering of type expressions\<close>

text \<open>
  \<open>getType\<close>, \<open>getParamTypes\<close> and \<open>getReturnFields\<close> call each other. Each
  \<open>for\<close> loop that appends one string per field is the recursion of the
  corresponding \<open>_loop\<close> function; a panic inside the loop ends it. For a
  channel, \<open>dir\<close> is \<open>v.Dir\<close>: the conversion \<open>types.ChanDir(v.Dir)\<close>
  keeps the number, and the switch compares it with the three constants of
  \<open>go/types\<close>. An array type renders without its length.
\<close>

fun getType :: "expr \<Rightarrow> panic + string"
  and getParamTypes_loop :: "field list \<Rightarrow> panic + string list"
  and getParamTypes :: "field list \<Rightarrow> panic + string"
  and getReturnFields_loop :: "field list \<Rightarrow> panic + string list"
  and getReturnFields :: "field list \<Rightarrow> panic + string"
where
  "getType (Ident v) = Inr (Name v)"
| "getType (SelectorExpr x sel) =
     (case getType x of Inl e \<Rightarrow> Inl e | Inr s \<Rightarrow> Inr (s @ ''.'' @ Name sel))"
| "getType (StarExpr x) =
     (case getType x of Inl e \<Rightarrow> Inl e | Inr s \<Rightarrow> Inr (''*'' @ s))"
| "getType (ArrayType n elt) =
     (case getType elt of Inl e \<Rightarrow> Inl e | Inr s \<Rightarrow> Inr (''[]'' @ s))"
| "getType (MapType k v) =
     (case getType k of Inl e \<Rightarrow> Inl e
      | Inr ks \<Rightarrow> (case getType v of Inl e \<Rightarrow> Inl e
                  | Inr vs \<Rightarrow> Inr (''map['' @ ks @ '']'' @ vs)))"
| "getType (FuncType params None) =
     (case getParamTypes params of Inl e \<Rightarrow> Inl e | Inr ps \<Rightarrow> Inl NilDereference)"
| "getType (FuncType params (Some results)) =
     (case getParamTypes params of Inl e \<Rightarrow> Inl e
      | Inr ps \<Rightarrow> (case getReturnFields results of Inl e \<Rightarrow> Inl e
                  | Inr rs \<Rightarrow> Inr (''func('' @ ps @ '') '' @ rs)))"
| "getType (ChanType dir v) =
     (let ch = ''chan '';
          ch = (if dir = types_SendRecv then ch
                else if dir = types_SendOnly then ch @ ''<-''
                else if dir = types_RecvOnly then ''<-'' @ ch
                else ch)
      in case getType v of Inl e \<Rightarrow> Inl e | Inr s \<Rightarrow> Inr (ch @ s))"
| "getType (StructType fs) = Inr ''struct{}''"
| "getType (InterfaceType ms) = Inr ''interface{}''"
| "getType (OtherExpr xs) = Inr ''nil''"
| "getParamTypes_loop [] = Inr []"
| "getParamTypes_loop (Field names typ # ps) =
     (case getType typ of Inl e \<Rightarrow> Inl e
      | Inr t \<Rightarrow> (case getParamTypes_loop ps of Inl e \<Rightarrow> Inl e
                 | Inr params \<Rightarrow> Inr (t # params)))"
| "getParamTypes list =
     (case getParamTypes_loop list of Inl e \<Rightarrow> Inl e
      | Inr params \<Rightarrow> Inr (strings_Join params '', ''))"
| "getReturnFields_loop [] = Inr []"
| "getReturnFields_loop (Field names typ # ps) =
     (case getType typ of Inl e \<Rightarrow> Inl e
      | Inr t \<Rightarrow>
          (case getReturnFields_loop ps of Inl e \<Rightarrow> Inl e
           | Inr params \<Rightarrow>
               (if length names > 0 then Inr ((Name (names ! 0) @ '' '' @ t) # params)
                else Inr (t # params))))"
| "getReturnFields list =
     (case getReturnFields_loop list of Inl e \<Rightarrow> Inl e
      | Inr params \<Rightarrow>
          (if length params > 1 then Inr (''('' @ strings_Join params '', '' @ '')'')
           else if params = [] then Inl IndexOutOfRange
           else Inr (params ! 0)))"

section \<open>Zero values\<close>

text \<open>
  The type checker's answer is a parameter: \<open>info v\<close> is the text of
  \<open>f.info.TypeOf(v).Underlying().String()\<close>, and \<open>None\<close> when \<open>TypeOf\<close>
  returns nil for the identifier, in which case the method call on the nil interface
  panics.
\<close>

type_synonym typeinfo = "ident \<Rightarrow> string option"

definition getBuiltinZeroValue :: "typeinfo \<Rightarrow> ident \<Rightarrow> panic + string" where
  "getBuiltinZeroValue info v =
     (case info v of
        None \<Rightarrow> Inl NilDereference
      | Some u \<Rightarrow>
          (if u \<in> set [''uint8'', ''uint16'', ''uint32'', ''uint64'', ''uint'', ''uintptr'',
                        ''int8'', ''int16'', ''int32'', ''int64'', ''int'', ''byte'', ''rune'',
                        ''float32'', ''float64'',
                        ''complex64'', ''complex128'']
           then Inr ''0''
           else if u = ''bool'' then Inr ''false''
           else if u = ''string'' then Inr [CHR 0x22, CHR 0x22]
           else Inr ''nil''))"

fun getZeroValue :: "typeinfo \<Rightarrow> expr \<Rightarrow> panic + string" where
  "getZeroValue info (StarExpr x) = Inr ''nil''"
| "getZeroValue info (ArrayType n elt) = Inr ''nil''"
| "getZeroValue info (MapType k v) = Inr ''nil''"
| "getZeroValue info (FuncType params results) = Inr ''nil''"
| "getZeroValue info (ChanType dir v) = Inr ''nil''"
| "getZeroValue info (StructType fs) = Inr ''nil''"
| "getZeroValue info (InterfaceType ms) = Inr ''nil''"
| "getZeroValue info (SelectorExpr x sel) = getZeroValue info (Ident sel)"
| "getZeroValue info (Ident v) = getBuiltinZeroValue info v"
| "getZeroValue info (OtherExpr xs) = Inr ''nil''"

fun getDefaultValues_loop :: "typeinfo \<Rightarrow> field list \<Rightarrow> panic + string list" where
  "getDefaultValues_loop info [] = Inr []"
| "getDefaultValues_loop info (p # ps) =
     (case getZeroValue info (Type p) of Inl e \<Rightarrow> Inl e
      | Inr z \<Rightarrow> (case getDefaultValues_loop info ps of Inl e \<Rightarrow> Inl e
                 | Inr params \<Rightarrow> Inr (z # params)))"

definition getDefaultValues :: "typeinfo \<Rightarrow> field list \<Rightarrow> panic + string" where
  "getDefaultValues info list =
     (case getDefaultValues_loop info list of Inl e \<Rightarrow> Inl e
      | Inr params \<Rightarrow> Inr (strings_Join params '', ''))"

section \<open>Synthesis of parameter names\<close>

definition reserved :: "(string \<times> string) list" where
  "reserved =
     [(''bool'', ''bval''),
      (''int'', ''ival''),
      (''int8'', ''i8val''),
      (''int16'', ''i16val''),
      (''int32'', ''i32val''),
      (''int64'', ''i64val''),
      (''uint'', ''uival''),
      (''uint8'', ''ui8val''),
      (''uint16'', ''ui16val''),
      (''uint32'', ''ui32val''),
      (''uint64'', ''ui64val''),
      (''float32'', ''f32val''),
      (''float64'', ''f64val''),
      (''complex64'', ''cmplx64val''),
      (''complex128'', ''cmplx128val''),
      (''string'', ''strval''),
      (''struct{}'', ''structval''),
      (''interface{}'', ''ifaceval'')]"

text \<open>
  The entries of the map \<open>reservedPrefix\<close>, in one order of iteration. No string
  begins with both keys, so the order in which \<open>range\<close> yields them does not change
  what the loops below return (lemma \<open>reservedPrefix_order\<close>).
\<close>

definition reservedPrefix :: "(string \<times> string) list" where
  "reservedPrefix = [(''map'', ''map''), (''[]'', ''s'')]"

definition firstStep :: "string \<Rightarrow> string" where
  "firstStep lower =
     (if list_ex (\<lambda>(k, v). strings_HasPrefix lower k) reservedPrefix then lower
      else (let idx = strings_Index lower ''.'' in
            if idx \<noteq> - 1 then
              (let typ = drop (nat (idx + 1)) lower in
               if typ = ''context'' then ''ctx'' else typ)
            else lower))"

text \<open>
  The entry of \<open>reservedPrefix\<close> at which the loop of \<open>makeIdentName\<close> returns:
  the first one whose key is a prefix of \<open>ident\<close>, provided \<open>ident\<close> has a
  closing bracket.
\<close>

definition prefixEntry :: "(string \<times> string) list \<Rightarrow> string \<Rightarrow> (string \<times> string) option" where
  "prefixEntry table ident =
     find (\<lambda>(k, v). strings_HasPrefix ident k \<and> strings_Index ident '']'' \<noteq> - 1) table"

lemma strings_Index_bound:
  "strings_Index s sub \<noteq> - 1 \<Longrightarrow> 0 \<le> strings_Index s sub \<and> nat (strings_Index s sub) + length sub \<le> length s"
proof (induction s)
  case Nil
  then show ?case by (simp split: if_splits)
next
  case (Cons c cs)
  show ?case
  proof (cases "strings_HasPrefix (c # cs) sub")
    case True
    then have "length (take (length sub) (c # cs)) = length sub"
      unfolding strings_HasPrefix_def by simp
    then have "length sub \<le> length (c # cs)"
      by simp
    with True show ?thesis by simp
  next
    case False
    with Cons.prems have ne: "strings_Index cs sub \<noteq> - 1"
      by (auto simp: Let_def split: if_splits)
    from Cons.IH [OF ne] False ne show ?thesis
      by (simp add: Let_def nat_add_distrib)
  qed
qed

lemma firstStep_length: "length (firstStep lower) \<le> length lower"
proof -
  have "length (''ctx'' :: string) \<le> length lower"
    if "drop n lower = ''context''" for n
  proof -
    have "length (drop n lower) = 7" using that by simp
    then show ?thesis by simp
  qed
  then show ?thesis
    unfolding firstStep_def by (auto simp: Let_def)
qed

function makeIdentName :: "string \<Rightarrow> string" where
  "makeIdentName lower =
     (let ident = firstStep lower in
      case map_of reserved ident of
        Some v \<Rightarrow> v
      | None \<Rightarrow>
          (case prefixEntry reservedPrefix ident of
             Some (k, v) \<Rightarrow>
               makeIdentName (drop (nat (strings_Index ident '']'' + 1)) ident) @ v
           | None \<Rightarrow> ident))"
  by pat_completeness auto
termination
proof (relation "measure length", goal_cases)
  case 1
  show ?case by simp
next
  case (2 lower ident kv k v)
  from 2 have "strings_Index ident '']'' \<noteq> - 1"
    unfolding prefixEntry_def by (auto simp: find_Some_iff)
  from strings_Index_bound [OF this]
  have "0 \<le> strings_Index ident '']''" "nat (strings_Index ident '']'') < length ident"
    by auto
  moreover have "length ident \<le> length lower"
    using 2 firstStep_length by simp
  ultimately show ?case by (simp add: nat_add_distrib)
qed

declare makeIdentName.simps [simp del]

text \<open>
  The loop of \<open>getParamField\<close>. The table \<open>m\<close> is the map from a derived name
  to its counter. The counter has type \<open>uint\<close>; it is incremented at most once per
  field, and a slice cannot hold as many fields as \<open>uint\<close> has values, so it never
  wraps and is a natural number here.
\<close>

fun getParamField_loop ::
  "field list \<Rightarrow> (string \<rightharpoonup> nat) \<Rightarrow> panic + (string list \<times> string list)" where
  "getParamField_loop [] m = Inr ([], [])"
| "getParamField_loop (p # ps) m =
     (if length (Names p) > 0 then
        (case getType (Type p) of Inl e \<Rightarrow> Inl e
         | Inr t \<Rightarrow>
             (case getParamField_loop ps m of Inl e \<Rightarrow> Inl e
              | Inr (params, names) \<Rightarrow>
                  Inr ((Name (Names p ! 0) @ '' '' @ t) # params, Name (Names p ! 0) # names)))
      else
        (case getType (Type p) of Inl e \<Rightarrow> Inl e
         | Inr t \<Rightarrow>
             (let lt = strings_ToLower t;
                  key = makeIdentName lt
              in case m key of
                   Some i \<Rightarrow>
                     (case getParamField_loop ps (m(key \<mapsto> i + 1)) of Inl e \<Rightarrow> Inl e
                      | Inr (params, names) \<Rightarrow>
                          Inr ((key @ formatUint i @ '' '' @ t) # params,
                               (key @ formatUint i) # names))
                 | None \<Rightarrow>
                     (case getParamField_loop ps (m(key \<mapsto> 0)) of Inl e \<Rightarrow> Inl e
                      | Inr (params, names) \<Rightarrow>
                          Inr ((key @ '' '' @ t) # params, key # names)))))"

definition getParamField :: "field list \<Rightarrow> panic + (string \<times> string)" where
  "getParamField list =
     (case getParamField_loop list Map.empty of Inl e \<Rightarrow> Inl e
      | Inr (params, names) \<Rightarrow>
          Inr (strings_Join params '', '', strings_Join names '', ''))"

section \<open>The records handed to the emitter\<close>

text \<open>
  Modelled from the spec: the declarations of the structs \<open>Interface\<close>,
  \<open>Param\<close> and \<open>Return\<close> are not among the sources. The spec gives a
  method record a name, one \<open>Param\<close> and one \<open>Return\<close>, all plain text;
  the fields are the ones that the composite literals of \<open>file.go\<close> set
  (\<open>Name\<close>, \<open>Param\<close>, \<open>Return\<close>; \<open>TypeOnly\<close>,
  \<open>NameOnly\<close>, \<open>Field\<close>; \<open>Type\<close>, \<open>Value\<close>).
\<close>

record Param =
  TypeOnly :: string
  NameOnly :: string
  Field_text :: string

record Return =
  Type_text :: string
  Value :: string

record Interface =
  Name_text :: string
  Param_of :: Param
  Return_of :: Return

definition makeReturn :: "typeinfo \<Rightarrow> field list \<Rightarrow> panic + Return" where
  "makeReturn info list =
     (case getReturnFields list of Inl e \<Rightarrow> Inl e
      | Inr t \<Rightarrow> (case getDefaultValues info list of Inl e \<Rightarrow> Inl e
                 | Inr v \<Rightarrow> Inr \<lparr>Type_text = t, Value = v\<rparr>))"

definition makeParam :: "field list \<Rightarrow> panic + Param" where
  "makeParam list =
     (case getParamField list of Inl e \<Rightarrow> Inl e
      | Inr (field, names) \<Rightarrow>
          (case getParamTypes list of Inl e \<Rightarrow> Inl e
           | Inr ts \<Rightarrow> Inr \<lparr>TypeOnly = ts, NameOnly = names, Field_text = field\<rparr>))"

section \<open>Slices of method records\<close>

text \<open>
  \<open>getInterfaces\<close> keeps its methods in a slice \<open>result\<close> that it truncates
  with \<open>result[:0]\<close> and stores in \<open>f.data\<close>. A slice is a view of a backing
  array, so the arrays live in an explicit store: the heap is the list of the arrays
  allocated so far, and the address of an array is its index. A cell holds a pointer to
  an \<open>Interface\<close>, \<open>None\<close> for nil; the records themselves are never written
  after their creation.

  \<open>append\<close> writes in place when the capacity allows it; otherwise it allocates an
  array, copies the elements and writes the new one. The capacity of the new array is
  chosen by the Go runtime: \<open>grow c\<close> stands for its choice for a full slice of
  capacity \<open>c\<close>, and is a parameter of the model (at least one more cell is always
  allocated).
\<close>

record slice =
  ptr :: nat
  len :: nat
  cap :: nat

type_synonym heap = "Interface option list list"

definition append_slice :: "(nat \<Rightarrow> nat) \<Rightarrow> heap \<Rightarrow> slice \<Rightarrow> Interface \<Rightarrow> heap \<times> slice" where
  "append_slice grow h s x =
     (if len s < cap s then
        (h[ptr s := (h ! ptr s)[len s := Some x]], s\<lparr>len := len s + 1\<rparr>)
      else
        (let newcap = max (grow (cap s)) (len s + 1);
             arr = take (len s) (h ! ptr s) @ [Some x] @ replicate (newcap - (len s + 1)) None
         in (h @ [arr], \<lparr>ptr = length h, len = len s + 1, cap = newcap\<rparr>)))"

text \<open>The elements that a slice shows: the first \<open>len\<close> cells of its array.\<close>

definition elems :: "heap \<Rightarrow> slice \<Rightarrow> Interface option list" where
  "elems h s = take (len s) (h ! ptr s)"

section \<open>The walk over the declarations\<close>

text \<open>
  The declarations of a file, as far as the collector is concerned: general
  declarations with their type, value and import specifications. (Function
  declarations and their bodies are not part of the model.)
\<close>

datatype spec =
    TypeSpec ident expr
  | ValueSpec "ident list" "expr option" "expr list"
  | ImportSpec

datatype decl = GenDecl "spec list"

text \<open>
  Modelled from the spec: the type \<open>walker\<close>, which makes a visitor of the
  callback, is not among the sources. The spec describes a traversal by a visitor
  callback that returns a signal to continue or to stop: the walk goes on below a node
  when the callback returns \<open>true\<close>.

  \<open>ast.Walk\<close> calls the visitor on every node, parents before children, children
  in the order of the source. The callback of \<open>getInterfaces\<close> always returns
  \<open>true\<close> and acts on two kinds of nodes only, so the walk is the list of the nodes
  of these two kinds in the order of their visits.
\<close>

datatype visited = VTypeSpec ident expr | VInterfaceType "field list"

fun walk_expr :: "expr \<Rightarrow> visited list"
  and walk_exprs :: "expr list \<Rightarrow> visited list"
  and walk_fields :: "field list \<Rightarrow> visited list"
where
  "walk_expr (Ident v) = []"
| "walk_expr (SelectorExpr x sel) = walk_expr x"
| "walk_expr (StarExpr x) = walk_expr x"
| "walk_expr (ArrayType None elt) = walk_expr elt"
| "walk_expr (ArrayType (Some n) elt) = walk_expr n @ walk_expr elt"
| "walk_expr (MapType k v) = walk_expr k @ walk_expr v"
| "walk_expr (FuncType params None) = walk_fields params"
| "walk_expr (FuncType params (Some results)) = walk_fields params @ walk_fields results"
| "walk_expr (ChanType dir v) = walk_expr v"
| "walk_expr (StructType fs) = walk_fields fs"
| "walk_expr (InterfaceType ms) = VInterfaceType ms # walk_fields ms"
| "walk_expr (OtherExpr xs) = walk_exprs xs"
| "walk_exprs [] = []"
| "walk_exprs (x # xs) = walk_expr x @ walk_exprs xs"
| "walk_fields [] = []"
| "walk_fields (Field names typ # fs) = walk_expr typ @ walk_fields fs"

fun walk_spec :: "spec \<Rightarrow> visited list" where
  "walk_spec (TypeSpec nm typ) = VTypeSpec nm typ # walk_expr typ"
| "walk_spec (ValueSpec names None values) = walk_exprs values"
| "walk_spec (ValueSpec names (Some typ) values) = walk_expr typ @ walk_exprs values"
| "walk_spec ImportSpec = []"

fun walk_decl :: "decl \<Rightarrow> visited list" where
  "walk_decl (GenDecl specs) = concat (map walk_spec specs)"

definition walk_file :: "decl list \<Rightarrow> visited list" where
  "walk_file decls = concat (map walk_decl decls)"

section \<open>Collection of the interfaces\<close>

text \<open>
  The state that the callback of \<open>getInterfaces\<close> works on: the variables
  \<open>name\<close> and \<open>result\<close> of the enclosing function, the map \<open>f.data\<close>, and
  the heap of backing arrays.
\<close>

record collector =
  cur_name :: string
  cur_result :: slice
  f_data :: "string \<rightharpoonup> slice"
  heap_of :: heap

text \<open>The composite literal \<open>&Interface{...}\<close> built for a method \<open>x\<close>.\<close>

definition newInterface ::
  "typeinfo \<Rightarrow> field \<Rightarrow> field list \<Rightarrow> field list option \<Rightarrow> panic + Interface" where
  "newInterface info x params results =
     (if Names x = [] then Inl IndexOutOfRange
      else
        (case makeParam params of Inl e \<Rightarrow> Inl e
         | Inr p \<Rightarrow>
             (case results of
                None \<Rightarrow> Inl NilDereference
              | Some rl \<Rightarrow>
                  (case makeReturn info rl of Inl e \<Rightarrow> Inl e
                   | Inr r \<Rightarrow>
                       Inr \<lparr>Name_text = Name (Names x ! 0), Param_of = p, Return_of = r\<rparr>))))"

text \<open>The loop over \<open>v.Methods.List\<close>.\<close>

fun methods_loop ::
  "typeinfo \<Rightarrow> (nat \<Rightarrow> nat) \<Rightarrow> field list \<Rightarrow> heap \<times> slice \<Rightarrow> panic + heap \<times> slice" where
  "methods_loop info grow [] hs = Inr hs"
| "methods_loop info grow (x # xs) hs =
     (case Type x of
        FuncType params results \<Rightarrow>
          (case newInterface info x params results of Inl e \<Rightarrow> Inl e
           | Inr i \<Rightarrow> methods_loop info grow xs (append_slice grow (fst hs) (snd hs) i))
      | _ \<Rightarrow> methods_loop info grow xs hs)"

text \<open>The callback, on one visited node.\<close>

fun visit :: "typeinfo \<Rightarrow> (nat \<Rightarrow> nat) \<Rightarrow> collector \<Rightarrow> visited \<Rightarrow> panic + collector" where
  "visit info grow st (VTypeSpec nm typ) =
     Inr (st\<lparr>cur_name := (case typ of InterfaceType ms \<Rightarrow> Name nm | _ \<Rightarrow> cur_name st),
             cur_result := (cur_result st)\<lparr>len := 0\<rparr>\<rparr>)"
| "visit info grow st (VInterfaceType ms) =
     (case methods_loop info grow ms (heap_of st, cur_result st) of Inl e \<Rightarrow> Inl e
      | Inr (h, r) \<Rightarrow>
          Inr (st\<lparr>heap_of := h, cur_result := r, f_data := (f_data st)(cur_name st \<mapsto> r)\<rparr>))"

fun visit_all :: "typeinfo \<Rightarrow> (nat \<Rightarrow> nat) \<Rightarrow> collector \<Rightarrow> visited list \<Rightarrow> panic + collector" where
  "visit_all info grow st [] = Inr st"
| "visit_all info grow st (n # ns) =
     (case visit info grow st n of Inl e \<Rightarrow> Inl e | Inr st' \<Rightarrow> visit_all info grow st' ns)"

text \<open>
  The state at the start of \<open>getInterfaces\<close>: \<open>name\<close> is empty, \<open>result\<close> is
  \<open>make([]*Interface, 0)\<close> (an array of no cells), \<open>f.data\<close> is the empty map
  that \<open>parse\<close> made.
\<close>

definition init_collector :: collector where
  "init_collector =
     \<lparr>cur_name = [], cur_result = \<lparr>ptr = 0, len = 0, cap = 0\<rparr>, f_data = Map.empty, heap_of = [[]]\<rparr>"

definition getInterfaces :: "typeinfo \<Rightarrow> (nat \<Rightarrow> nat) \<Rightarrow> decl list \<Rightarrow> panic + collector" where
  "getInterfaces info grow decls = visit_all info grow init_collector (walk_file decls)"

text \<open>What a reader of \<open>f.data[k]\<close> sees after the collection.\<close>

definition methodsOf :: "collector \<Rightarrow> string \<Rightarrow> Interface option list option" where
  "methodsOf st k = (case f_data st k of None \<Rightarrow> None | Some s \<Rightarrow> Some (elems (heap_of st) s))"

section \<open>Notions used to state the properties\<close>

text \<open>
  The name that \<open>getParamField\<close> derives for an unnamed field before numbering
  (its stem): \<open>makeIdentName\<close> of the lower-cased rendering of the type.
\<close>

definition stemOf :: "field \<Rightarrow> string option" where
  "stemOf p =
     (case getType (Type p) of Inl e \<Rightarrow> None
      | Inr t \<Rightarrow> Some (makeIdentName (strings_ToLower t)))"

definition unnamedWith :: "string \<Rightarrow> field \<Rightarrow> bool" where
  "unnamedWith s p = (Names p = [] \<and> stemOf p = Some s)"

text \<open>The sequence \<open>s, s0, s1, s2, ...\<close>.\<close>

fun numbered :: "string \<Rightarrow> nat \<Rightarrow> string" where
  "numbered s 0 = s"
| "numbered s (Suc k) = s @ formatUint k"

text \<open>A field with its first name only.\<close>

definition firstNameOnly :: "field \<Rightarrow> field" where
  "firstNameOnly p = Field (take 1 (Names p)) (Type p)"

text \<open>Whether a member of an interface is a method: its type is a function type.\<close>

definition isFuncType :: "expr \<Rightarrow> bool" where
  "isFuncType t = (case t of FuncType params results \<Rightarrow> True | _ \<Rightarrow> False)"

text \<open>A type given by its name, simple or qualified.\<close>

fun isTypeName :: "expr \<Rightarrow> bool" where
  "isTypeName (Ident v) = True"
| "isTypeName (SelectorExpr (Ident q) sel) = True"
| "isTypeName t = False"






section \<open>Example inputs\<close>

text \<open>
  A type checker's table for the examples: \<open>int\<close> is itself, \<open>Celsius\<close>
  and \<open>Fahrenheit\<close> are named types over \<open>float64\<close>, \<open>error\<close> is the
  predeclared interface; nothing else is resolved.
\<close>

definition ex_info :: typeinfo where
  "ex_info v =
     (if Name v = ''int'' then Some ''int''
      else if Name v = ''Celsius'' \<or> Name v = ''Fahrenheit'' then Some ''float64''
      else if Name v = ''error'' then Some ''interface{Error() string}''
      else None)"

definition ex_int :: expr where
  "ex_int = Ident (MkIdent 1 ''int'')"

definition ex_error :: expr where
  "ex_error = Ident (MkIdent 2 ''error'')"

definition ex_Context :: expr where
  "ex_Context = SelectorExpr (Ident (MkIdent 3 ''context'')) (MkIdent 4 ''Context'')"

definition ex_map :: expr where
  "ex_map = MapType (Ident (MkIdent 5 ''string'')) (Ident (MkIdent 6 ''int''))"

definition ex_string :: expr where
  "ex_string = Ident (MkIdent 10 ''string'')"

text \<open>The parameter list \<open>(int, string, int, int, string)\<close>.\<close>

definition ex_interleaved :: "field list" where
  "ex_interleaved =
     [Field [] ex_int, Field [] ex_string, Field [] ex_int, Field [] ex_int, Field [] ex_string]"




text \<open>The field \<open>a, b int\<close>.\<close>

definition ex_two_names :: field where
  "ex_two_names = Field [MkIdent 16 ''a'', MkIdent 17 ''b''] ex_int"


text \<open>
  The method \<open>nm(int) error\<close> and the record collected for it; the declarations
  \<open>type A interface { F(int) error; G(int) error }\<close> and
  \<open>type B interface { H(int) error }\<close>; the embedded interface \<open>io.Reader\<close>.
\<close>

definition ex_method :: "string \<Rightarrow> field" where
  "ex_method nm = Field [MkIdent 20 nm] (FuncType [Field [] ex_int] (Some [Field [] ex_error]))"

definition ex_record :: "string \<Rightarrow> Interface" where
  "ex_record nm =
     \<lparr>Name_text = nm,
      Param_of = \<lparr>TypeOnly = ''int'', NameOnly = ''ival'', Field_text = ''ival int''\<rparr>,
      Return_of = \<lparr>Type_text = ''error'', Value = ''nil''\<rparr>\<rparr>"

definition ex_decl_A :: decl where
  "ex_decl_A =
     GenDecl [TypeSpec (MkIdent 21 ''A'') (InterfaceType [ex_method ''F'', ex_method ''G''])]"

definition ex_decl_B :: decl where
  "ex_decl_B = GenDecl [TypeSpec (MkIdent 22 ''B'') (InterfaceType [ex_method ''H''])]"

definition ex_embedded :: field where
  "ex_embedded = Field [] (SelectorExpr (Ident (MkIdent 23 ''io'')) (MkIdent 24 ''Reader''))"

text \<open>A growth of capacities: doubling, from one cell.\<close>

definition ex_grow :: "nat \<Rightarrow> nat" where
  "ex_grow c = (if c = 0 then 1 else 2 * c)"

section \<open>Channel types\<close>

text \<open>
  C4, as the code has it. A receive-only channel of \<open>T\<close> renders as \<open><-chan\<close>,
  a space and the rendering of \<open>T\<close>; a bidirectional channel as \<open>chan\<close>, a space
  and the rendering of \<open>T\<close>. For a send-only channel the marker is appended to the
  bidirectional prefix, after its space: the text is \<open>chan <-\<close> directly followed by
  the rendering of \<open>T\<close>.
\<close>

theorem C4_chan_directions:
  "getType (ChanType ast_RECV v) =
     (case getType v of Inl e \<Rightarrow> Inl e | Inr s \<Rightarrow> Inr (''<-chan '' @ s))
   \<and> getType (ChanType ast_SEND v) =
     (case getType v of Inl e \<Rightarrow> Inl e | Inr s \<Rightarrow> Inr (''chan <-'' @ s))
   \<and> getType (ChanType (ast_SEND OR ast_RECV) v) =
     (case getType v of Inl e \<Rightarrow> Inl e | Inr s \<Rightarrow> Inr (''chan '' @ s))"
  by (simp add: ast_SEND_def ast_RECV_def types_SendRecv_def types_SendOnly_def
      types_RecvOnly_def split: sum.splits)

text \<open>
  A send-only channel of \<open>int\<close> renders as \<open>chan <-int\<close>, which is not
  \<open>chan<- \<close> followed by \<open>int\<close>.
\<close>

theorem C4_send_only_counterexample:
  "getType (ChanType ast_SEND ex_int) = Inr ''chan <-int''
   \<and> getType (ChanType ast_SEND ex_int) \<noteq> Inr (''chan<- '' @ ''int'')"
  by (simp add: ex_int_def ast_SEND_def types_SendRecv_def types_SendOnly_def
      types_RecvOnly_def)

section \<open>Zero values depend on the underlying kind\<close>

text \<open>
  C6. The zero value of a qualified name is the zero value of its member component. The
  zero value of a simple name is a function of the underlying kind that the type checker
  reports: two identifiers with the same underlying kind have the same zero value,
  whatever their spelling; the numeric kinds give \<open>0\<close>, \<open>bool\<close> gives
  \<open>false\<close>, \<open>string\<close> gives the empty string literal, and every other kind
  gives \<open>nil\<close>.
\<close>

theorem C6_zero_value_by_kind:
  "getZeroValue info (SelectorExpr x sel) = getZeroValue info (Ident sel)
   \<and> (info v = info w \<longrightarrow> getZeroValue info (Ident v) = getZeroValue info (Ident w))
   \<and> (info v = Some k \<longrightarrow>
        getZeroValue info (Ident v) =
          Inr (if k \<in> set [''int'', ''int8'', ''int16'', ''int32'', ''int64'',
                            ''uint'', ''uint8'', ''uint16'', ''uint32'', ''uint64'', ''uintptr'',
                            ''byte'', ''rune'',
                            ''float32'', ''float64'', ''complex64'', ''complex128'']
               then ''0''
               else if k = ''bool'' then ''false''
               else if k = ''string'' then [CHR 0x22, CHR 0x22]
               else ''nil''))"
  by (auto simp: getBuiltinZeroValue_def)

theorem C6_zero_value_by_kind_witness:
  "ex_info (MkIdent 7 ''Celsius'') = ex_info (MkIdent 8 ''Fahrenheit'')
   \<and> ex_info (MkIdent 7 ''Celsius'') = Some ''float64''
   \<and> getZeroValue ex_info (Ident (MkIdent 7 ''Celsius'')) = Inr ''0''
   \<and> getZeroValue ex_info (Ident (MkIdent 8 ''Fahrenheit'')) = Inr ''0''
   \<and> getZeroValue ex_info (SelectorExpr (Ident (MkIdent 9 ''temp'')) (MkIdent 7 ''Celsius''))
       = Inr ''0''"
  using C6_zero_value_by_kind
    [of ex_info "Ident (MkIdent 9 ''temp'')" "MkIdent 7 ''Celsius''" "MkIdent 7 ''Celsius''"
        "MkIdent 8 ''Fahrenheit''" "''float64''"]
  by (auto simp: ex_info_def)

section \<open>Names derived from composite types\<close>

lemma makeIdentName_slice: "makeIdentName (''[]'' @ r) = makeIdentName r @ ''s''"
  by (subst makeIdentName.simps)
     (simp add: firstStep_def reservedPrefix_def strings_HasPrefix_def reserved_def
        prefixEntry_def)

lemma makeIdentName_map:
  "makeIdentName (''map'' @ r) =
     (if strings_Index (''map'' @ r) '']'' = - 1 then ''map'' @ r
      else makeIdentName (drop (nat (strings_Index (''map'' @ r) '']'' + 1)) (''map'' @ r))
           @ ''map'')"
  by (subst makeIdentName.simps)
     (simp add: firstStep_def reservedPrefix_def strings_HasPrefix_def reserved_def
        prefixEntry_def Let_def)

text \<open>
  The order in which \<open>range\<close> yields the two entries of \<open>reservedPrefix\<close> does
  not matter: the loops find the same entry in either order.
\<close>

lemma reservedPrefix_order:
  "prefixEntry (rev reservedPrefix) ident = prefixEntry reservedPrefix ident
   \<and> list_ex (\<lambda>(k, v). strings_HasPrefix lower k) (rev reservedPrefix)
       = list_ex (\<lambda>(k, v). strings_HasPrefix lower k) reservedPrefix"
proof -
  have "\<not> (strings_HasPrefix ident ''map'' \<and> strings_HasPrefix ident ''[]'')"
    by (cases ident) (auto simp: strings_HasPrefix_def)
  then show ?thesis
    by (auto simp: prefixEntry_def reservedPrefix_def)
qed

text \<open>
  C7. In the method \<open>Do(context.Context, map[string]int) error\<close> the two unnamed
  parameters are named \<open>ctx\<close> and \<open>ivalmap\<close>. In general, a text with the map
  prefix and a closing bracket derives the name of what follows the first closing
  bracket, with \<open>map\<close> appended; a text with the slice prefix derives the name of
  what follows the prefix, with \<open>s\<close> appended.
\<close>

theorem C7_context_and_map_names:
  "getParamField [Field [] ex_Context, Field [] ex_map] =
     Inr (''ctx context.Context, ivalmap map[string]int'', ''ctx, ivalmap'')
   \<and> makeIdentName (''map'' @ r) =
       (if strings_Index (''map'' @ r) '']'' = - 1 then ''map'' @ r
        else makeIdentName (drop (nat (strings_Index (''map'' @ r) '']'' + 1)) (''map'' @ r))
             @ ''map'')
   \<and> makeIdentName (''[]'' @ r') = makeIdentName r' @ ''s''"
proof -
  have "getParamField [Field [] ex_Context, Field [] ex_map] =
     Inr (''ctx context.Context, ivalmap map[string]int'', ''ctx, ivalmap'')"
    unfolding ex_Context_def ex_map_def by code_simp
  then show ?thesis
    using makeIdentName_map [of r] makeIdentName_slice [of r'] by blast
qed

section \<open>Return signature and default values\<close>

lemma getReturnFields_loop_index:
  "getReturnFields_loop list = Inr rs \<Longrightarrow>
     length rs = length list \<and>
     (\<forall>i<length list. \<exists>t. getType (Type (list ! i)) = Inr t \<and>
        rs ! i = (if length (Names (list ! i)) > 0
                  then Name (Names (list ! i) ! 0) @ '' '' @ t else t))"
proof (induction list arbitrary: rs)
  case Nil
  then show ?case by simp
next
  case (Cons p ps)
  obtain names ty where p: "p = Field names ty" by (cases p)
  from Cons.prems p obtain t rs' where
    t: "getType ty = Inr t" and rs': "getReturnFields_loop ps = Inr rs'"
    and rs: "rs = (if length names > 0 then Name (names ! 0) @ '' '' @ t else t) # rs'"
    by (auto split: sum.splits if_splits)
  from Cons.IH [OF rs'] have len: "length rs' = length ps"
    and ix: "\<And>i. i < length ps \<Longrightarrow> \<exists>t. getType (Type (ps ! i)) = Inr t \<and>
        rs' ! i = (if length (Names (ps ! i)) > 0
                  then Name (Names (ps ! i) ! 0) @ '' '' @ t else t)"
    by auto
  show ?case
  proof (intro conjI allI impI)
    show "length rs = length (p # ps)" using rs len by simp
  next
    fix i assume "i < length (p # ps)"
    then show "\<exists>t. getType (Type ((p # ps) ! i)) = Inr t \<and>
        rs ! i = (if length (Names ((p # ps) ! i)) > 0
                  then Name (Names ((p # ps) ! i) ! 0) @ '' '' @ t else t)"
      using ix [of "i - 1"] t rs p by (cases i) auto
  qed
qed

lemma getDefaultValues_loop_index:
  "getDefaultValues_loop info list = Inr zs \<Longrightarrow>
     length zs = length list \<and>
     (\<forall>i<length list. getZeroValue info (Type (list ! i)) = Inr (zs ! i))"
proof (induction list arbitrary: zs)
  case Nil
  then show ?case by simp
next
  case (Cons p ps)
  from Cons.prems obtain z zs' where
    z: "getZeroValue info (Type p) = Inr z" and zs': "getDefaultValues_loop info ps = Inr zs'"
    and zs: "zs = z # zs'"
    by (auto split: sum.splits)
  from Cons.IH [OF zs'] z zs show ?case
    by (auto simp: nth_Cons split: nat.splits)
qed

text \<open>
  C8. For a result list that is not empty and whose fields render (\<open>rs\<close>) and have
  zero values (\<open>zs\<close>): there is one rendering and one zero value per field; the
  signature text is the rendering alone when there is one field, and the comma-joined
  renderings in parentheses when there are more; the default values are the
  comma-joined zero values, never parenthesized.
\<close>

theorem C8_return_texts:
  assumes "list \<noteq> []"
    and "getReturnFields_loop list = Inr rs"
    and "getDefaultValues_loop info list = Inr zs"
  shows "length rs = length list \<and> length zs = length list
    \<and> getReturnFields list =
        Inr (if length list > 1 then ''('' @ strings_Join rs '', '' @ '')'' else rs ! 0)
    \<and> getDefaultValues info list = Inr (strings_Join zs '', '')
    \<and> (\<forall>i<length list.
          (\<exists>t. getType (Type (list ! i)) = Inr t \<and>
             rs ! i = (if length (Names (list ! i)) > 0
                       then Name (Names (list ! i) ! 0) @ '' '' @ t else t))
          \<and> getZeroValue info (Type (list ! i)) = Inr (zs ! i))"
proof -
  from getReturnFields_loop_index [OF assms(2)] have
    lr: "length rs = length list" and
    ir: "\<forall>i<length list. \<exists>t. getType (Type (list ! i)) = Inr t \<and>
        rs ! i = (if length (Names (list ! i)) > 0
                  then Name (Names (list ! i) ! 0) @ '' '' @ t else t)"
    by blast+
  from getDefaultValues_loop_index [OF assms(3)] have
    lz: "length zs = length list" and
    iz: "\<forall>i<length list. getZeroValue info (Type (list ! i)) = Inr (zs ! i)"
    by blast+
  from assms(1) lr have "rs \<noteq> []" by auto
  with assms(2) lr have rf: "getReturnFields list =
        Inr (if length list > 1 then ''('' @ strings_Join rs '', '' @ '')'' else rs ! 0)"
    by simp
  have dv: "getDefaultValues info list = Inr (strings_Join zs '', '')"
    using assms(3) by (simp add: getDefaultValues_def)
  from lr lz rf dv ir iz show ?thesis by blast
qed

theorem C8_return_texts_witness:
  "[Field [] ex_int, Field [] ex_error] \<noteq> []
   \<and> getReturnFields_loop [Field [] ex_int, Field [] ex_error] = Inr [''int'', ''error'']
   \<and> getDefaultValues_loop ex_info [Field [] ex_int, Field [] ex_error] = Inr [''0'', ''nil'']
   \<and> getReturnFields [Field [] ex_int, Field [] ex_error] = Inr ''(int, error)''
   \<and> getDefaultValues ex_info [Field [] ex_int, Field [] ex_error] = Inr ''0, nil''"
proof -
  have ne: "[Field [] ex_int, Field [] ex_error] \<noteq> []" by simp
  have rs: "getReturnFields_loop [Field [] ex_int, Field [] ex_error] = Inr [''int'', ''error'']"
    by (simp add: ex_int_def ex_error_def)
  have zs: "getDefaultValues_loop ex_info [Field [] ex_int, Field [] ex_error] = Inr [''0'', ''nil'']"
    by (simp add: ex_int_def ex_error_def ex_info_def getBuiltinZeroValue_def)
  from C8_return_texts [OF ne rs zs] ne rs zs show ?thesis by simp
qed

section \<open>Numbering of synthesized names\<close>







text \<open>
  The invariant of the loop of \<open>getParamField\<close>, for one stem \<open>s\<close> and any
  table \<open>m\<close>: the unnamed fields of stem \<open>s\<close> get \<open>s, s0, s1, ...\<close> when
  the table has no entry for \<open>s\<close>, and \<open>s\<close> followed by \<open>c, c + 1, ...\<close>
  when it has the entry \<open>c\<close>.
\<close>

lemma loop_names_for_stem:
  "getParamField_loop list m = Inr (params, names) \<Longrightarrow>
     map snd (filter (\<lambda>(p, n). unnamedWith s p) (zip list names)) =
       map (\<lambda>k. case m s of None \<Rightarrow> numbered s k | Some c \<Rightarrow> s @ formatUint (c + k))
         [0..<length (filter (unnamedWith s) list)]"
proof (induction list arbitrary: m params names)
  case Nil
  then show ?case by simp
next
  case (Cons p ps)
  show ?case
  proof (cases "Names p = []")
    case False
    then have nw: "\<not> unnamedWith s p" by (simp add: unnamedWith_def)
    from Cons.prems False obtain params' names' n where
      rest: "getParamField_loop ps m = Inr (params', names')" and names: "names = n # names'"
      by (auto split: sum.splits prod.splits)
    from Cons.IH [OF rest] nw names show ?thesis by simp
  next
    case True
    from Cons.prems True obtain t where t: "getType (Type p) = Inr t"
      by (auto split: sum.splits)
    define key where "key = makeIdentName (strings_ToLower t)"
    have stem: "stemOf p = Some key" by (simp add: stemOf_def t key_def)
    show ?thesis
    proof (cases "m key")
      case None
      with Cons.prems True t obtain params' names' where
        rest: "getParamField_loop ps (m(key \<mapsto> 0)) = Inr (params', names')"
        and names: "names = key # names'"
        by (auto simp: key_def Let_def split: sum.splits prod.splits)
      show ?thesis
      proof (cases "key = s")
        case True
        with \<open>Names p = []\<close> stem have w: "unnamedWith s p" by (simp add: unnamedWith_def)
        from Cons.IH [OF rest] True w names None show ?thesis
          by (simp add: map_upt_Suc del: upt_Suc)
      next
        case False
        with stem have nw: "\<not> unnamedWith s p" by (simp add: unnamedWith_def)
        from Cons.IH [OF rest] False nw names show ?thesis by simp
      qed
    next
      case (Some i)
      with Cons.prems True t obtain params' names' where
        rest: "getParamField_loop ps (m(key \<mapsto> i + 1)) = Inr (params', names')"
        and names: "names = (key @ formatUint i) # names'"
        by (auto simp: key_def Let_def split: sum.splits prod.splits)
      show ?thesis
      proof (cases "key = s")
        case True
        with \<open>Names p = []\<close> stem have w: "unnamedWith s p" by (simp add: unnamedWith_def)
        from Cons.IH [OF rest] True w names Some show ?thesis
          by (simp add: map_upt_Suc del: upt_Suc)
      next
        case False
        with stem have nw: "\<not> unnamedWith s p" by (simp add: unnamedWith_def)
        from Cons.IH [OF rest] False nw names show ?thesis by simp
      qed
    qed
  qed
qed

lemma loop_lengths:
  "getParamField_loop list m = Inr (params, names) \<Longrightarrow>
     length params = length list \<and> length names = length list"
proof (induction list arbitrary: m params names)
  case Nil
  then show ?case by simp
next
  case (Cons p ps)
  from Cons.prems obtain m' params' names' a b where
    rest: "getParamField_loop ps m' = Inr (params', names')"
    and "params = a # params'" "names = b # names'"
    by (auto simp: Let_def split: sum.splits prod.splits if_splits option.splits)
  with Cons.IH [OF rest] show ?case by simp
qed



text \<open>
  C5. In the names that the loop of \<open>getParamField\<close> produces for a parameter
  list, the names of the unnamed parameters of stem \<open>s\<close>, read in the order of
  declaration, are \<open>s, s0, s1, s2, ...\<close>: this holds for every stem \<open>s\<close>,
  whatever lies between its occurrences. \<open>getParamField\<close> returns these names,
  comma-joined.
\<close>

theorem C5_names_numbered_per_stem:
  assumes "getParamField_loop list Map.empty = Inr (params, names)"
  shows "map snd (filter (\<lambda>(p, n). unnamedWith s p) (zip list names)) =
           map (numbered s) [0..<length (filter (unnamedWith s) list)]
    \<and> length names = length list
    \<and> getParamField list = Inr (strings_Join params '', '', strings_Join names '', '')"
proof -
  from loop_names_for_stem [OF assms, of s]
  have "map snd (filter (\<lambda>(p, n). unnamedWith s p) (zip list names)) =
           map (numbered s) [0..<length (filter (unnamedWith s) list)]"
    by simp
  moreover from loop_lengths [OF assms] have "length names = length list" by simp
  moreover from assms
  have "getParamField list = Inr (strings_Join params '', '', strings_Join names '', '')"
    by (simp add: getParamField_def)
  ultimately show ?thesis by blast
qed

lemma ex_interleaved_loop:
  "getParamField_loop ex_interleaved Map.empty =
     Inr ([''ival int'', ''strval string'', ''ival0 int'', ''ival1 int'', ''strval0 string''],
          [''ival'', ''strval'', ''ival0'', ''ival1'', ''strval0''])"
  unfolding ex_interleaved_def ex_int_def ex_string_def by code_simp

lemma ex_interleaved_stems:
  "map stemOf ex_interleaved =
     [Some ''ival'', Some ''strval'', Some ''ival'', Some ''ival'', Some ''strval'']"
  unfolding ex_interleaved_def ex_int_def ex_string_def by code_simp

theorem C5_names_numbered_per_stem_witness:
  "getParamField_loop ex_interleaved Map.empty =
     Inr ([''ival int'', ''strval string'', ''ival0 int'', ''ival1 int'', ''strval0 string''],
          [''ival'', ''strval'', ''ival0'', ''ival1'', ''strval0''])
   \<and> map (numbered ''ival'') [0..<length (filter (unnamedWith ''ival'') ex_interleaved)]
       = [''ival'', ''ival0'', ''ival1'']
   \<and> getParamField ex_interleaved =
       Inr (''ival int, strval string, ival0 int, ival1 int, strval0 string'',
            ''ival, strval, ival0, ival1, strval0'')"
proof -
  have w: "filter (\<lambda>(p, n). unnamedWith ''ival'' p)
             (zip ex_interleaved [''ival'', ''strval'', ''ival0'', ''ival1'', ''strval0''])
           = [(ex_interleaved ! 0, ''ival''), (ex_interleaved ! 2, ''ival0''),
              (ex_interleaved ! 3, ''ival1'')]"
    using ex_interleaved_stems
    by (simp add: ex_interleaved_def unnamedWith_def)
  from C5_names_numbered_per_stem [OF ex_interleaved_loop, of "''ival''"] w ex_interleaved_loop
  show ?thesis by simp
qed

section \<open>Uniqueness of synthesized names\<close>






section \<open>Fields with several names\<close>

lemma firstNameOnly_simps:
  "Type (firstNameOnly p) = Type p"
  "(Names (firstNameOnly p) = []) = (Names p = [])"
  "Names p \<noteq> [] \<Longrightarrow> Names (firstNameOnly p) ! 0 = Names p ! 0"
  by (cases "Names p"; simp add: firstNameOnly_def)+

lemma getParamField_loop_first_name:
  "getParamField_loop (map firstNameOnly list) m = getParamField_loop list m"
  by (induction list arbitrary: m) (simp_all add: firstNameOnly_simps Let_def cong: if_cong sum.case_cong option.case_cong)

lemma getParamTypes_loop_first_name:
  "getParamTypes_loop (map firstNameOnly list) = getParamTypes_loop list"
proof (induction list)
  case Nil
  show ?case by simp
next
  case (Cons p ps)
  then show ?case by (cases p) (simp add: firstNameOnly_def cong: sum.case_cong)
qed

lemma getReturnFields_loop_first_name:
  "getReturnFields_loop (map firstNameOnly list) = getReturnFields_loop list"
proof (induction list)
  case Nil
  show ?case by simp
next
  case (Cons p ps)
  obtain names ty where p: "p = Field names ty" by (cases p)
  with Cons show ?case by (cases names) (simp_all add: firstNameOnly_def cong: sum.case_cong)
qed

lemma getDefaultValues_loop_first_name:
  "getDefaultValues_loop info (map firstNameOnly list) = getDefaultValues_loop info list"
  by (induction list) (simp_all add: firstNameOnly_simps cong: sum.case_cong)

text \<open>
  C2, as the code has it. The collector has no error of its own to return. Of a field
  that carries several names only the first is used: the parameter texts, the return
  texts and the panics are those of the list in which every field has its first name
  alone.
\<close>

theorem C2_only_first_name_used:
  "makeParam (map firstNameOnly list) = makeParam list
   \<and> makeReturn info (map firstNameOnly list) = makeReturn info list"
proof -
  have "getParamField (map firstNameOnly list) = getParamField list"
    by (simp add: getParamField_def getParamField_loop_first_name)
  moreover have "getParamTypes (map firstNameOnly list) = getParamTypes list"
    by (simp add: getParamTypes_loop_first_name)
  moreover have "getReturnFields (map firstNameOnly list) = getReturnFields list"
    by (simp add: getReturnFields_loop_first_name)
  moreover have "getDefaultValues info (map firstNameOnly list) = getDefaultValues info list"
    by (simp add: getDefaultValues_def getDefaultValues_loop_first_name)
  ultimately show ?thesis
    by (simp only: makeParam_def makeReturn_def)
qed

text \<open>
  For the parameter field \<open>a, b int\<close> the collector returns the texts of
  \<open>a int\<close>, not an error; on an empty result list it panics.
\<close>

theorem C2_no_structured_error_counterexample:
  "makeParam [ex_two_names] = Inr \<lparr>TypeOnly = ''int'', NameOnly = ''a'', Field_text = ''a int''\<rparr>
   \<and> makeReturn ex_info [] = Inl IndexOutOfRange"
  by (simp add: ex_two_names_def ex_int_def makeParam_def makeReturn_def getParamField_def)

section \<open>Members of an interface that are not methods\<close>

lemma methods_loop_append:
  "methods_loop info grow (xs @ ys) hs =
     (case methods_loop info grow xs hs of Inl e \<Rightarrow> Inl e
      | Inr hs' \<Rightarrow> methods_loop info grow ys hs')"
  by (induction xs arbitrary: hs) (simp_all split: expr.splits sum.splits)

lemma methods_loop_skip:
  "\<not> isFuncType (Type x) \<Longrightarrow> methods_loop info grow (x # ys) hs = methods_loop info grow ys hs"
  by (simp add: isFuncType_def split: expr.splits)

lemma walk_fields_append: "walk_fields (xs @ ys) = walk_fields xs @ walk_fields ys"
proof (induction xs)
  case Nil
  show ?case by simp
next
  case (Cons p ps)
  then show ?case by (cases p) simp
qed

lemma walk_expr_type_name: "isTypeName t \<Longrightarrow> walk_expr t = []"
  by (induction t rule: isTypeName.induct) simp_all

text \<open>The collection of the two methods \<open>F\<close> and \<open>G\<close>, for any growth.\<close>

lemma ex_newInterface:
  "newInterface ex_info (ex_method nm) [Field [] ex_int] (Some [Field [] ex_error])
     = Inr (ex_record nm)"
  by (simp add: newInterface_def makeParam_def makeReturn_def getParamField_def
      getDefaultValues_def getBuiltinZeroValue_def Let_def makeIdentName.simps
      firstStep_def reservedPrefix_def strings_HasPrefix_def reserved_def prefixEntry_def
      strings_ToLower_def toLowerChar_def lowerTable_def ex_method_def ex_int_def ex_error_def
      ex_record_def ex_info_def)

lemma ex_methods_loop:
  "methods_loop ex_info grow (ex_method nm # ms) hs =
     methods_loop ex_info grow ms (append_slice grow (fst hs) (snd hs) (ex_record nm))"
  using ex_newInterface [of nm] by (simp add: ex_method_def)

lemma ex_walk_method: "walk_fields (ex_method nm # ms) = walk_fields ms"
  by (simp add: ex_method_def ex_int_def ex_error_def)

lemma take_replicate_update:
  "take (Suc 0) ((replicate n y)[0 := x]) = (if n = 0 then [] else [x])"
  by (cases n) simp_all

lemma ex_collect_FG:
  "(case visit_all ex_info grow init_collector
           (walk_spec (TypeSpec nm (InterfaceType [ex_method ''F'', ex_method ''G''])))
    of Inl e \<Rightarrow> None | Inr st \<Rightarrow> methodsOf st (Name nm))
   = Some [Some (ex_record ''F''), Some (ex_record ''G'')]"
  by (simp add: ex_walk_method init_collector_def ex_methods_loop
      append_slice_def methodsOf_def elems_def Let_def take_replicate_update
      del: methods_loop.simps(2))

text \<open>
  C10. A member of an interface whose type is not a function type is skipped by the
  loop over the members: the loop, and the visit of the interface, end in the same
  state or the same panic as without the member. When the member is an embedded
  interface given by its name, the walk finds nothing below it either, so the
  collection over the whole declaration is the same as without it.
\<close>

theorem C10_non_function_members_skipped:
  assumes "\<not> isFuncType (Type x)"
  shows "methods_loop info grow (xs @ x # ys) hs = methods_loop info grow (xs @ ys) hs
    \<and> visit info grow st (VInterfaceType (xs @ x # ys))
        = visit info grow st (VInterfaceType (xs @ ys))
    \<and> (isTypeName (Type x) \<longrightarrow>
         visit_all info grow st (walk_spec (TypeSpec nm (InterfaceType (xs @ x # ys))))
         = visit_all info grow st (walk_spec (TypeSpec nm (InterfaceType (xs @ ys)))))"
proof -
  have loop: "methods_loop info grow (xs @ x # ys) hs = methods_loop info grow (xs @ ys) hs" for hs
  proof -
    have "methods_loop info grow (xs @ x # ys) hs =
        (case methods_loop info grow xs hs of Inl e \<Rightarrow> Inl e
         | Inr hs' \<Rightarrow> methods_loop info grow (x # ys) hs')"
      by (rule methods_loop_append)
    also have "\<dots> =
        (case methods_loop info grow xs hs of Inl e \<Rightarrow> Inl e
         | Inr hs' \<Rightarrow> methods_loop info grow ys hs')"
      by (simp only: methods_loop_skip [OF assms])
    also have "\<dots> = methods_loop info grow (xs @ ys) hs"
      by (rule methods_loop_append [symmetric])
    finally show ?thesis .
  qed
  then have v: "visit info grow st (VInterfaceType (xs @ x # ys))
                = visit info grow st (VInterfaceType (xs @ ys))" for st
    by simp
  have "walk_fields (xs @ x # ys) = walk_fields (xs @ ys)" if "isTypeName (Type x)"
  proof -
    obtain ns t where x: "x = Field ns t" by (cases x)
    with that show ?thesis by (simp add: walk_fields_append walk_expr_type_name)
  qed
  with loop v show ?thesis by (simp cong: sum.case_cong)
qed

theorem C10_non_function_members_skipped_witness:
  "\<not> isFuncType (Type ex_embedded) \<and> isTypeName (Type ex_embedded)
   \<and> (case visit_all ex_info ex_grow init_collector
             (walk_spec (TypeSpec (MkIdent 21 ''A'')
                (InterfaceType [ex_method ''F'', ex_embedded, ex_method ''G''])))
      of Inl e \<Rightarrow> None | Inr st \<Rightarrow> methodsOf st ''A'')
     = Some [Some (ex_record ''F''), Some (ex_record ''G'')]"
proof -
  have nf: "\<not> isFuncType (Type ex_embedded)" by (simp add: ex_embedded_def isFuncType_def)
  have tn: "isTypeName (Type ex_embedded)" by (simp add: ex_embedded_def)
  from C10_non_function_members_skipped
         [where x = ex_embedded and info = ex_info and grow = ex_grow
            and xs = "[ex_method ''F'']" and ys = "[ex_method ''G'']"
            and st = init_collector and nm = "MkIdent 21 ''A''", OF nf] tn
  have "visit_all ex_info ex_grow init_collector
          (walk_spec (TypeSpec (MkIdent 21 ''A'')
             (InterfaceType ([ex_method ''F''] @ ex_embedded # [ex_method ''G'']))))
        = visit_all ex_info ex_grow init_collector
          (walk_spec (TypeSpec (MkIdent 21 ''A'')
             (InterfaceType ([ex_method ''F''] @ [ex_method ''G'']))))"
    by blast
  then have "visit_all ex_info ex_grow init_collector
          (walk_spec (TypeSpec (MkIdent 21 ''A'')
             (InterfaceType [ex_method ''F'', ex_embedded, ex_method ''G''])))
        = visit_all ex_info ex_grow init_collector
          (walk_spec (TypeSpec (MkIdent 21 ''A'')
             (InterfaceType [ex_method ''F'', ex_method ''G''])))"
    by (simp only: append.simps)
  with ex_collect_FG [where grow = ex_grow and nm = "MkIdent 21 ''A''"] nf tn show ?thesis
    by (simp only: ident.sel) blast
qed

section \<open>Entries of the output mapping share one backing array\<close>

lemma ex_walk:
  "walk_file [ex_decl_A] =
     [VTypeSpec (MkIdent 21 ''A'') (InterfaceType [ex_method ''F'', ex_method ''G'']),
      VInterfaceType [ex_method ''F'', ex_method ''G'']]"
  "walk_file [ex_decl_A, ex_decl_B] =
     [VTypeSpec (MkIdent 21 ''A'') (InterfaceType [ex_method ''F'', ex_method ''G'']),
      VInterfaceType [ex_method ''F'', ex_method ''G''],
      VTypeSpec (MkIdent 22 ''B'') (InterfaceType [ex_method ''H'']),
      VInterfaceType [ex_method ''H'']]"
  by (simp_all add: walk_file_def ex_decl_A_def ex_decl_B_def ex_method_def ex_int_def
      ex_error_def)

lemma ex_A_alone:
  "(case getInterfaces ex_info grow [ex_decl_A] of Inl e \<Rightarrow> None
     | Inr st \<Rightarrow> methodsOf st ''A'') = Some [Some (ex_record ''F''), Some (ex_record ''G'')]"
  by (simp add: getInterfaces_def ex_walk init_collector_def ex_methods_loop
      append_slice_def methodsOf_def elems_def Let_def take_replicate_update
      del: methods_loop.simps(2))

lemma ex_A_then_B:
  "(case getInterfaces ex_info grow [ex_decl_A, ex_decl_B] of Inl e \<Rightarrow> None
     | Inr st \<Rightarrow> methodsOf st ''A'') = Some [Some (ex_record ''H''), Some (ex_record ''G'')]"
  by (simp add: getInterfaces_def ex_walk init_collector_def ex_methods_loop
      append_slice_def methodsOf_def elems_def Let_def take_replicate_update
      del: methods_loop.simps(2))

lemma ex_B_after_A:
  "(case getInterfaces ex_info grow [ex_decl_A, ex_decl_B] of Inl e \<Rightarrow> None
     | Inr st \<Rightarrow> methodsOf st ''B'') = Some [Some (ex_record ''H'')]"
  by (simp add: getInterfaces_def ex_walk init_collector_def ex_methods_loop
      append_slice_def methodsOf_def elems_def Let_def take_replicate_update
      del: methods_loop.simps(2))

text \<open>
  C1 fails on the code. For the file that declares \<open>A\<close> with the methods \<open>F\<close>
  and \<open>G\<close>, the entry of \<open>A\<close> holds \<open>F\<close> and \<open>G\<close>. For the file that
  declares \<open>A\<close> and then \<open>B\<close> with the method \<open>H\<close>, the entry of \<open>A\<close>
  holds \<open>H\<close> and \<open>G\<close> when the collection ends: the collection of \<open>B\<close> has
  written its method into the array that the entry of \<open>A\<close> shows. This holds for
  every growth of capacities.
\<close>

theorem C1_entry_overwritten_by_later_interface:
  "(case getInterfaces ex_info grow [ex_decl_A] of Inl e \<Rightarrow> None
     | Inr st \<Rightarrow> methodsOf st ''A'') = Some [Some (ex_record ''F''), Some (ex_record ''G'')]
   \<and> (case getInterfaces ex_info grow [ex_decl_A, ex_decl_B] of Inl e \<Rightarrow> None
     | Inr st \<Rightarrow> methodsOf st ''A'') = Some [Some (ex_record ''H''), Some (ex_record ''G'')]
   \<and> (case getInterfaces ex_info grow [ex_decl_A, ex_decl_B] of Inl e \<Rightarrow> None
     | Inr st \<Rightarrow> methodsOf st ''B'') = Some [Some (ex_record ''H'')]"
  using ex_A_alone [of grow] ex_A_then_B [of grow] ex_B_after_A [of grow] by blast

section \<open>The three projections of a parameter list\<close>












end
